theory Spec2Isabelle
  imports Complex_Main "HOL-Library.Sublist"
begin

section \<open>Values, exceptions and observable effects\<close>

text \<open>
  The development embeds \<^verbatim>\<open>src/hoaxy/sns/twitter/stream.py\<close>: the class
  \<^verbatim>\<open>TwitterStream\<close> with its methods \<^verbatim>\<open>_backoff\<close>, \<^verbatim>\<open>_reset_backoff\<close>,
  \<^verbatim>\<open>process_one_line\<close> and \<^verbatim>\<open>stream\<close>. Isabelle identifiers cannot start with an
  underscore, so the private names lose their leading underscore.

  Durations are Python numbers. Every duration the default table \<^verbatim>\<open>BACKOFF_PARAMS\<close> can
  produce is a multiple of \<open>1/4\<close> of small magnitude, on which binary floating point is exact,
  so durations are modelled as rationals.
\<close>

text \<open>The result of \<^verbatim>\<open>json.loads\<close>.\<close>

datatype json =
    JNull
  | JBool bool
  | JNum rat
  | JStr string
  | JArr "json list"
  | JObj "(string \<times> json) list"

text \<open>
  The exceptions that occur. The first five are the failures the transport (the
  \<^verbatim>\<open>requests\<close> library and the socket layer) raises; \<open>HTTPError\<close> carries
  \<^verbatim>\<open>err.response.status_code\<close>.
\<close>

datatype exn =
    ConnectTimeout
  | ReadTimeout
  | ConnectionError
  | HTTPError int
  | SocketError
  | TwitterStreamError
  | ValueError string
  | KeyError string
  | TypeError string
  | ZeroDivisionError
  | SystemExit string
  | UnboundLocalError string

text \<open>A handler object; \<^verbatim>\<open>isinstance(handler, QueueHandler)\<close> distinguishes the two kinds.\<close>

datatype handler = QueueHandler string | OtherHandler string

fun isinstance_QueueHandler :: "handler \<Rightarrow> bool" where
  "isinstance_QueueHandler (QueueHandler _) = True"
| "isinstance_QueueHandler (OtherHandler _) = False"

datatype level = DEBUG | INFO | WARNING | ERROR

datatype arg = AInt int | ANum rat | AStr string | AJson json | AExn exn

text \<open>
  What the program does to the outside world, in order: a log record (level, format string,
  arguments), \<^verbatim>\<open>time.sleep\<close>, a call of a handler's \<^verbatim>\<open>process_one\<close>, a response
  object returned by \<^verbatim>\<open>client.post\<close>, and \<^verbatim>\<open>resp.close()\<close>.
\<close>

datatype event =
    Log level string "arg list"
  | Sleep rat
  | ProcessOne handler json
  | Opened nat
  | Closed nat

section \<open>The backoff table\<close>

text \<open>
  One entry of \<^verbatim>\<open>BACKOFF_PARAMS\<close>. The inner dictionaries have the keys
  \<^verbatim>\<open>time\<close>, \<^verbatim>\<open>kind\<close>, \<^verbatim>\<open>max\<close> and one of \<^verbatim>\<open>step\<close> and \<^verbatim>\<open>factor\<close>;
  a missing key is \<open>None\<close> and reading it raises \<open>KeyError\<close>. The key \<^verbatim>\<open>max\<close> is the
  field \<open>max_time\<close>, since \<open>max\<close> is the maximum of two numbers in HOL.
\<close>

record params =
  time :: rat
  kind :: string
  step :: "rat option"
  factor :: "rat option"
  max_time :: rat

definition BACKOFF_PARAMS :: "(string \<times> params) list" where
  "BACKOFF_PARAMS =
     [(''tcp'', \<lparr>time = 0, kind = ''linear'', step = Some (1/4), factor = None, max_time = 16\<rparr>),
      (''http'', \<lparr>time = 5, kind = ''exponential'', step = None, factor = Some 2, max_time = 320\<rparr>),
      (''http_420'', \<lparr>time = 60, kind = ''exponential'', step = None, factor = Some 2, max_time = 600\<rparr>)]"

section \<open>The session object\<close>

text \<open>
  The fields of \<^verbatim>\<open>TwitterStream\<close> that the methods below read or write, and
  \<open>effects\<close>, the trace of what the object has done so far. The credentials, the API
  parameters and the client are passed to the transport unchanged and are left out.
\<close>

record TwitterStream =
  handlers :: "handler list"
  window_size :: int
  stall_timeout :: rat
  backoff_sleep :: "rat option"
  backoff_strategy :: "string option"
  conn_timeout_sleep :: rat
  counter :: int
  backoff_params :: "(string \<times> params) list"
  effects :: "event list"

definition emit :: "event \<Rightarrow> TwitterStream \<Rightarrow> TwitterStream" where
  "emit e s = s\<lparr>effects := effects s @ [e]\<rparr>"

definition TwitterStream_init :: "handler list \<Rightarrow> int \<Rightarrow> TwitterStream" where
  "TwitterStream_init hs w =
     \<lparr>handlers = hs, window_size = w, stall_timeout = 90,
      backoff_sleep = None, backoff_strategy = None,
      conn_timeout_sleep = 1/2, counter = 0, backoff_params = BACKOFF_PARAMS,
      effects = [Log INFO ''handlers: %s'' [], Log INFO ''Twitter API parameters: %s'' []]\<rparr>"

text \<open>\<^verbatim>\<open>time.sleep\<close> raises \<open>ValueError\<close> on a negative duration.\<close>

definition time_sleep :: "rat \<Rightarrow> TwitterStream \<Rightarrow> (exn + unit) \<times> TwitterStream" where
  "time_sleep d s =
     (if d < 0 then (Inl (ValueError ''sleep length must be non-negative''), s)
      else (Inr (), emit (Sleep d) s))"

section \<open>Backoff\<close>

text \<open>
  \<^verbatim>\<open>_backoff(strategy)\<close>. The condition
  \<^verbatim>\<open>self._backoff_sleep is None or self._backoff_strategy != strategy\<close> selects the
  restart branch; otherwise the ceiling is tested on the stored delay, and only then is the
  delay grown and slept.
\<close>

definition restart :: "string \<Rightarrow> params \<Rightarrow> TwitterStream \<Rightarrow> (exn + unit) \<times> TwitterStream" where
  "restart strategy p s =
     time_sleep (time p) (s\<lparr>backoff_sleep := Some (time p), backoff_strategy := Some strategy\<rparr>)"

definition grow :: "params \<Rightarrow> rat \<Rightarrow> exn + rat" where
  "grow p d =
     (if kind p = ''linear''
      then (case step p of None \<Rightarrow> Inl (KeyError ''step'') | Some st \<Rightarrow> Inr (d + st))
      else (case factor p of None \<Rightarrow> Inl (KeyError ''factor'') | Some f \<Rightarrow> Inr (d * f)))"

definition continue :: "params \<Rightarrow> rat \<Rightarrow> TwitterStream \<Rightarrow> (exn + unit) \<times> TwitterStream" where
  "continue p d s =
     (if d \<ge> max_time p
      then (Inl TwitterStreamError,
            emit (Log ERROR ''Reached maximum backoff time. Raising critical error!'' []) s)
      else (case grow p d of
              Inl e \<Rightarrow> (Inl e, s)
            | Inr d' \<Rightarrow>
                time_sleep d'
                  (emit (Log WARNING ''Sleeping {:.2f}s as part of {} backoff.''
                           [ANum d', AStr (kind p)])
                     (s\<lparr>backoff_sleep := Some d'\<rparr>))))"

definition backoff :: "string \<Rightarrow> TwitterStream \<Rightarrow> (exn + unit) \<times> TwitterStream" where
  "backoff strategy s =
     (case map_of (backoff_params s) strategy of
        None \<Rightarrow> (Inl (ValueError (''unknown strategy: '' @ strategy)), s)
      | Some p \<Rightarrow>
          (case backoff_sleep s of
             None \<Rightarrow> restart strategy p s
           | Some d \<Rightarrow>
               if backoff_strategy s \<noteq> Some strategy then restart strategy p s
               else continue p d s))"

definition reset_backoff :: "TwitterStream \<Rightarrow> TwitterStream" where
  "reset_backoff s = s\<lparr>backoff_sleep := None, backoff_strategy := None\<rparr>"

text \<open>
  \<open>backoff_n n strategy\<close> calls \<^verbatim>\<open>_backoff(strategy)\<close> \<open>n\<close> times in a row and stops at
  the first call that raises.
\<close>

fun backoff_n :: "nat \<Rightarrow> string \<Rightarrow> TwitterStream \<Rightarrow> (exn + unit) \<times> TwitterStream" where
  "backoff_n 0 strategy s = (Inr (), s)"
| "backoff_n (Suc n) strategy s =
     (case backoff strategy s of
        (Inl e, s') \<Rightarrow> (Inl e, s')
      | (Inr u, s') \<Rightarrow> backoff_n n strategy s')"

text \<open>The durations slept, in order.\<close>

fun sleeps :: "event list \<Rightarrow> rat list" where
  "sleeps [] = []"
| "sleeps (Sleep d # es) = d # sleeps es"
| "sleeps (e # es) = sleeps es"

text \<open>
  The states the backoff controller can reach, each with the category of the last call of
  \<^verbatim>\<open>_backoff\<close> that computed and stored a delay (\<open>None\<close> when there is none since the
  construction or the last reset). The last rule covers every other method of the session:
  none of them writes the three backoff fields.
\<close>

inductive reach :: "TwitterStream \<Rightarrow> string option \<Rightarrow> bool" where
  reach_init: "reach (TwitterStream_init hs w) None"
| reach_reset: "reach s l \<Longrightarrow> reach (reset_backoff s) None"
| reach_return: "reach s l \<Longrightarrow> backoff c s = (Inr u, s') \<Longrightarrow> reach s' (Some c)"
| reach_raise: "reach s l \<Longrightarrow> backoff c s = (Inl e, s') \<Longrightarrow> reach s' l"
| reach_other: "reach s l \<Longrightarrow> backoff_sleep s' = backoff_sleep s \<Longrightarrow>
     backoff_strategy s' = backoff_strategy s \<Longrightarrow> backoff_params s' = backoff_params s \<Longrightarrow>
     reach s' l"

text \<open>The session is backing off under \<open>tcp\<close> and the stored delay is \<open>k\<close> quarters of a second.\<close>

definition tcp_state :: "TwitterStream \<Rightarrow> nat \<Rightarrow> bool" where
  "tcp_state s k \<longleftrightarrow> backoff_params s = BACKOFF_PARAMS \<and> backoff_strategy s = Some ''tcp''
      \<and> backoff_sleep s = Some (of_nat k / 4)"

section \<open>Processing one line\<close>

text \<open>
  The environment of the session: \<^verbatim>\<open>json.loads\<close> (\<open>None\<close> when it raises
  \<^verbatim>\<open>JSONDecodeError\<close>), and the answer of \<^verbatim>\<open>handler.is_alive()\<close>. The handlers run
  on their own threads, so the answer depends on when the probe is made; a probe is made
  while the record numbered \<^verbatim>\<open>self._counter\<close> is forwarded, and that number is its time.
\<close>

record env =
  json_loads :: "string \<Rightarrow> json option"
  is_alive :: "int \<Rightarrow> handler \<Rightarrow> bool"

text \<open>Python's \<^verbatim>\<open>key in s\<close> for two strings: \<open>key\<close> occurs in \<open>s\<close> as a substring.\<close>

fun str_contains :: "string \<Rightarrow> string \<Rightarrow> bool" where
  "str_contains [] key = (key = [])"
| "str_contains (c # cs) key = (prefix key (c # cs) \<or> str_contains cs key)"

text \<open>
  Python's \<^verbatim>\<open>key in jd\<close> for a string \<open>key\<close> and a value returned by \<^verbatim>\<open>json.loads\<close>:
  a key of a dict, an element of a list, a substring of a string, and \<open>TypeError\<close> for
  \<^verbatim>\<open>None\<close>, booleans and numbers, which are not iterable.
\<close>

fun py_in :: "string \<Rightarrow> json \<Rightarrow> exn + bool" where
  "py_in key (JObj kvs) = Inr (key \<in> set (map fst kvs))"
| "py_in key (JArr xs) = Inr (JStr key \<in> set xs)"
| "py_in key (JStr s) = Inr (str_contains s key)"
| "py_in key JNull = Inl (TypeError ''argument of type NoneType is not iterable'')"
| "py_in key (JBool b) = Inl (TypeError ''argument of type bool is not iterable'')"
| "py_in key (JNum n) = Inl (TypeError ''argument of type int is not iterable'')"

text \<open>\<^verbatim>\<open>a and b\<close>, where \<open>b\<close> is evaluated only when \<open>a\<close> is true.\<close>

definition py_and :: "exn + bool \<Rightarrow> exn + bool \<Rightarrow> exn + bool" where
  "py_and a b = (case a of Inl e \<Rightarrow> Inl e | Inr False \<Rightarrow> Inr False | Inr True \<Rightarrow> b)"

text \<open>
  \<^verbatim>\<open>'in_reply_to_status_id' in jd and 'user' in jd and 'id' in jd\<close>
\<close>

definition is_status :: "json \<Rightarrow> exn + bool" where
  "is_status jd =
     py_and (py_in ''in_reply_to_status_id'' jd) (py_and (py_in ''user'' jd) (py_in ''id'' jd))"

text \<open>
  The loop \<^verbatim>\<open>for handler in self.handlers\<close>; \<open>alive\<close> answers the probes of this record.
\<close>

fun forward :: "(handler \<Rightarrow> bool) \<Rightarrow> json \<Rightarrow> handler list \<Rightarrow> TwitterStream
    \<Rightarrow> (exn + unit) \<times> TwitterStream" where
  "forward alive jd [] s = (Inr (), s)"
| "forward alive jd (h # hs) s =
     (if isinstance_QueueHandler h \<and> \<not> alive h
      then (Inl (SystemExit ''Consumer thread dead''), s)
      else forward alive jd hs (emit (ProcessOne h jd) s))"

definition process_one_line :: "env \<Rightarrow> string \<Rightarrow> TwitterStream \<Rightarrow> (exn + bool) \<times> TwitterStream" where
  "process_one_line ev line s =
     (if line = [] then (Inr True, s)
      else
        (case json_loads ev line of
           None \<Rightarrow> (Inr False, emit (Log ERROR ''Json loads error: %s, raw data: %s'' [AStr line]) s)
         | Some jd \<Rightarrow>
             (case is_status jd of
                Inl e \<Rightarrow> (Inl e, s)
              | Inr False \<Rightarrow> (Inr False, emit (Log ERROR ''Not status tweet: %s'' [AJson jd]) s)
              | Inr True \<Rightarrow>
                  (let s1 = s\<lparr>counter := counter s + 1\<rparr> in
                   if window_size s1 = 0 then (Inl ZeroDivisionError, s1)
                   else
                     (let s2 = (if counter s1 mod window_size s1 = 0
                                then emit (Log INFO ''TwitterStreamer received %s tweets''
                                             [AInt (counter s1)]) s1
                                else s1)
                      in (case forward (is_alive ev (counter s2)) jd (handlers s2) s2 of
                            (Inl e, s3) \<Rightarrow> (Inl e, s3)
                          | (Inr u, s3) \<Rightarrow> (Inr True, s3)))))))"

text \<open>
  What the specification calls a record with a required field: the parsed value is a mapping
  and the field is one of its keys.
\<close>

fun has_field :: "string \<Rightarrow> json \<Rightarrow> bool" where
  "has_field key (JObj kvs) = (key \<in> set (map fst kvs))"
| "has_field key _ = False"

definition has_required_fields :: "json \<Rightarrow> bool" where
  "has_required_fields jd \<longleftrightarrow>
     has_field ''in_reply_to_status_id'' jd \<and> has_field ''user'' jd \<and> has_field ''id'' jd"

section \<open>The stream loop\<close>

text \<open>
  The body of \<^verbatim>\<open>for line in resp.iter_lines()\<close>, with the local variable
  \<^verbatim>\<open>data_lines\<close> as an argument: the line is processed, its return value is discarded,
  the counter is incremented, and at 8 the backoff is reset and the counter set to 0. An
  exception of \<^verbatim>\<open>process_one_line\<close> leaves the loop.
\<close>

fun iter_lines :: "env \<Rightarrow> string list \<Rightarrow> nat \<Rightarrow> TwitterStream \<Rightarrow> (exn + nat) \<times> TwitterStream" where
  "iter_lines ev [] data_lines s = (Inr data_lines, s)"
| "iter_lines ev (line # rest) data_lines s =
     (case process_one_line ev line s of
        (Inl e, s1) \<Rightarrow> (Inl e, s1)
      | (Inr b, s1) \<Rightarrow>
          (if data_lines + 1 \<ge> 8
           then iter_lines ev rest 0 (reset_backoff (emit (Log DEBUG ''Reset backoff'' []) s1))
           else iter_lines ev rest (data_lines + 1) s1))"

text \<open>
  What the transport does in one pass of \<^verbatim>\<open>while True\<close>: either \<^verbatim>\<open>_authenticate\<close>
  or \<^verbatim>\<open>client.post\<close> raises before \<^verbatim>\<open>resp\<close> is assigned, or \<^verbatim>\<open>client.post\<close> returns
  a response object, which yields lines and then either ends or raises.
\<close>

datatype attempt =
    ConnectFailed exn
  | Connected nat "string list" "exn option"

text \<open>
  The classes named by the \<^verbatim>\<open>except\<close> clauses, and \<^verbatim>\<open>isinstance\<close> for them. In the
  \<^verbatim>\<open>requests\<close> library \<open>ConnectTimeout\<close> derives from both \<open>ConnectionError\<close> and
  \<open>Timeout\<close>, \<open>ReadTimeout\<close> from \<open>Timeout\<close>, and every exception of the library
  from \<open>IOError\<close>, which is \<^verbatim>\<open>socket.error\<close>.
\<close>

datatype exn_class =
  C_ConnectTimeout | C_Timeout | C_ConnectionError | C_HTTPError | C_socket_error

fun isinstance :: "exn \<Rightarrow> exn_class \<Rightarrow> bool" where
  "isinstance ConnectTimeout c =
     (c \<in> {C_ConnectTimeout, C_Timeout, C_ConnectionError, C_socket_error})"
| "isinstance ReadTimeout c = (c \<in> {C_Timeout, C_socket_error})"
| "isinstance ConnectionError c = (c \<in> {C_ConnectionError, C_socket_error})"
| "isinstance (HTTPError code) c = (c \<in> {C_HTTPError, C_socket_error})"
| "isinstance SocketError c = (c = C_socket_error)"
| "isinstance e c = False"

text \<open>The body of the \<^verbatim>\<open>try\<close> statement; the second component is \<^verbatim>\<open>resp\<close>.\<close>

definition try_body :: "env \<Rightarrow> attempt \<Rightarrow> TwitterStream \<times> nat option
    \<Rightarrow> (exn + unit) \<times> TwitterStream \<times> nat option" where
  "try_body ev a st =
     (case st of (s, resp) \<Rightarrow>
        (case a of
           ConnectFailed e \<Rightarrow> (Inl e, s, resp)
         | Connected r ls ending \<Rightarrow>
             (case iter_lines ev ls 0 (emit (Opened r) s) of
                (Inl e, s1) \<Rightarrow> (Inl e, s1, Some r)
              | (Inr n, s1) \<Rightarrow>
                  (case ending of
                     Some e \<Rightarrow> (Inl e, s1, Some r)
                   | None \<Rightarrow>
                       (case backoff ''tcp'' (emit (Log WARNING ''Backing off..'' []) s1) of
                          (res, s2) \<Rightarrow> (res, s2, Some r))))))"

text \<open>The \<^verbatim>\<open>except\<close> clauses, in the order of the source; the last line re-raises.\<close>

definition except_clauses :: "exn \<Rightarrow> TwitterStream \<Rightarrow> (exn + unit) \<times> TwitterStream" where
  "except_clauses e s =
     (if isinstance e C_ConnectTimeout then
        time_sleep (conn_timeout_sleep s)
          (emit (Log WARNING ''Timeout, retrying in %s..'' [ANum (conn_timeout_sleep s)]) s)
      else if isinstance e C_Timeout then
        backoff ''tcp''
          (emit (Log WARNING ''Server did not send any data for %ss, backing off''
                   [ANum (stall_timeout s)]) s)
      else if isinstance e C_ConnectionError then
        backoff ''tcp'' (emit (Log WARNING ''Reconnecting to stream endpoint...'' []) s)
      else if isinstance e C_HTTPError then
        (case e of
           HTTPError status_code \<Rightarrow>
             (if status_code = 420
              then backoff ''http_420'' (emit (Log WARNING ''Got HTTP 420 Error. Backing off..'' []) s)
              else backoff ''http'' (emit (Log WARNING ''Got HTTP Error. Backing off..'' []) s))
         | _ \<Rightarrow> (Inl e, s))
      else if isinstance e C_socket_error then
        backoff ''tcp'' (emit (Log WARNING ''Got socket error: %s, reconnecting!'' [AExn e]) s)
      else (Inl e, s))"

text \<open>
  The \<^verbatim>\<open>finally\<close> clause. Reading \<^verbatim>\<open>resp\<close> before \<^verbatim>\<open>client.post\<close> has ever returned
  raises \<open>UnboundLocalError\<close>, which replaces an exception on its way out.
\<close>

definition finally_clause :: "(exn + unit) \<Rightarrow> TwitterStream \<Rightarrow> nat option
    \<Rightarrow> (exn + unit) \<times> TwitterStream" where
  "finally_clause res s resp =
     (case resp of
        None \<Rightarrow> (Inl (UnboundLocalError ''resp''), emit (Log INFO ''Request connection closed!'' []) s)
      | Some r \<Rightarrow> (res, emit (Closed r) (emit (Log INFO ''Request connection closed!'' []) s)))"

text \<open>One pass of \<^verbatim>\<open>while True\<close>.\<close>

definition stream_iteration :: "env \<Rightarrow> attempt \<Rightarrow> TwitterStream \<times> nat option
    \<Rightarrow> (exn + unit) \<times> TwitterStream \<times> nat option" where
  "stream_iteration ev a st =
     (case try_body ev a st of
        (res, s1, resp) \<Rightarrow>
          (case (case res of Inl e \<Rightarrow> except_clauses e s1 | Inr u \<Rightarrow> (Inr (), s1)) of
             (res2, s2) \<Rightarrow>
               (case finally_clause res2 s2 resp of
                  (res3, s3) \<Rightarrow> (res3, s3, resp))))"

text \<open>
  The loop, driven by what the transport does in each pass. \<open>Some e\<close>: the exception
  \<open>e\<close> left \<^verbatim>\<open>stream()\<close>; \<open>None\<close>: the loop has consumed the given passes and goes on.
\<close>

fun stream_loop :: "env \<Rightarrow> attempt list \<Rightarrow> TwitterStream \<times> nat option
    \<Rightarrow> exn option \<times> TwitterStream" where
  "stream_loop ev [] st = (None, fst st)"
| "stream_loop ev (a # as) st =
     (case stream_iteration ev a st of
        (Inl e, s1, resp) \<Rightarrow> (Some e, s1)
      | (Inr u, s1, resp) \<Rightarrow> stream_loop ev as (s1, resp))"

definition stream :: "env \<Rightarrow> attempt list \<Rightarrow> TwitterStream \<Rightarrow> exn option \<times> TwitterStream" where
  "stream ev as s = stream_loop ev as (emit (Log INFO ''Started streaming.'' []) s, None)"



section \<open>A sample environment\<close>

text \<open>
  The concrete inputs of the examples below. \<open>sample_loads\<close> is \<^verbatim>\<open>json.loads\<close> on the
  three lines it names and on lines that are not JSON, such as \<^verbatim>\<open>oops\<close>; it is not used
  on any other line. The handler \<open>q\<close> is a \<^verbatim>\<open>QueueHandler\<close> whose thread is alive while the
  first record is forwarded and dead from the second on.
\<close>

definition tweet_line :: string where
  \<open>tweet_line = ''{"user":{}, "id":1, "in_reply_to_status_id":null}''\<close>

definition tweet :: json where
  "tweet = JObj [(''user'', JObj []), (''id'', JNum 1), (''in_reply_to_status_id'', JNull)]"

definition sample_loads :: "string \<Rightarrow> json option" where
  \<open>sample_loads line =
     (if line = tweet_line then Some tweet
      else if line = ''{"id":1}'' then Some (JObj [(''id'', JNum 1)])
      else if line = ''1'' then Some (JNum 1)
      else None)\<close>

fun sample_alive :: "int \<Rightarrow> handler \<Rightarrow> bool" where
  "sample_alive n h = (if h = QueueHandler ''q'' then n < 2 else True)"

definition sample_env :: env where
  "sample_env = \<lparr>json_loads = sample_loads, is_alive = sample_alive\<rparr>"

definition sample_session :: TwitterStream where
  "sample_session = TwitterStream_init [OtherHandler ''a'', QueueHandler ''q'', OtherHandler ''b''] 1"


section \<open>Properties of the backoff controller\<close>

subsection \<open>The default table\<close>

lemma map_of_BACKOFF:
  "map_of BACKOFF_PARAMS c = Some p \<Longrightarrow>
     (c = ''tcp'' \<and> p = \<lparr>time = 0, kind = ''linear'', step = Some (1/4), factor = None, max_time = 16\<rparr>) \<or>
     (c = ''http'' \<and> p = \<lparr>time = 5, kind = ''exponential'', step = None, factor = Some 2, max_time = 320\<rparr>) \<or>
     (c = ''http_420'' \<and> p = \<lparr>time = 60, kind = ''exponential'', step = None, factor = Some 2, max_time = 600\<rparr>)"
  by (auto simp: BACKOFF_PARAMS_def split: if_splits)

lemma map_of_BACKOFF_None:
  "c \<notin> {''tcp'', ''http'', ''http_420''} \<Longrightarrow> map_of BACKOFF_PARAMS c = None"
  by (simp add: BACKOFF_PARAMS_def)

lemma map_of_BACKOFF_tcp:
  "map_of BACKOFF_PARAMS ''tcp'' = Some \<lparr>time = 0, kind = ''linear'', step = Some (1/4), factor = None, max_time = 16\<rparr>"
  by (simp add: BACKOFF_PARAMS_def)

lemma grow_BACKOFF:
  "map_of BACKOFF_PARAMS c = Some p \<Longrightarrow>
     grow p d = Inr (if c = ''tcp'' then d + 1/4 else d * 2)"
  by (auto dest!: map_of_BACKOFF simp: grow_def)

lemma restart_ok:
  "0 \<le> time p \<Longrightarrow> restart c p s =
     (Inr (), s\<lparr>backoff_sleep := Some (time p), backoff_strategy := Some c,
                effects := effects s @ [Sleep (time p)]\<rparr>)"
  by (simp add: restart_def time_sleep_def emit_def)

lemma sleeps_append: "sleeps (xs @ ys) = sleeps xs @ sleeps ys"
  by (induction xs rule: sleeps.induct) auto

lemma continue_below:
  assumes "map_of BACKOFF_PARAMS c = Some p" and "0 \<le> d" and "d < max_time p"
  shows "continue p d s =
     (Inr (), s\<lparr>backoff_sleep := Some (if c = ''tcp'' then d + 1/4 else d * 2),
               effects := effects s @
                 [Log WARNING ''Sleeping {:.2f}s as part of {} backoff.''
                    [ANum (if c = ''tcp'' then d + 1/4 else d * 2), AStr (kind p)],
                  Sleep (if c = ''tcp'' then d + 1/4 else d * 2)]\<rparr>)"
  using assms
  by (auto simp: continue_def grow_BACKOFF time_sleep_def emit_def)

lemma continue_ceiling:
  assumes "max_time p \<le> d"
  shows "continue p d s =
     (Inl TwitterStreamError,
      s\<lparr>effects := effects s @ [Log ERROR ''Reached maximum backoff time. Raising critical error!'' []]\<rparr>)"
  using assms by (simp add: continue_def emit_def)

lemma backoff_continuing:
  assumes "backoff_params s = BACKOFF_PARAMS" and "map_of BACKOFF_PARAMS c = Some p"
    and "backoff_sleep s = Some d" and "backoff_strategy s = Some c"
  shows "backoff c s = continue p d s"
  using assms by (simp add: backoff_def)

subsection \<open>Unknown categories\<close>

text \<open>
  Claim C10. A call of \<^verbatim>\<open>_backoff\<close> whose category is none of \<open>tcp\<close>, \<open>http\<close> and
  \<open>http_420\<close> raises \<open>ValueError\<close> with the message \<^verbatim>\<open>unknown strategy: \<close> followed by
  the category, and leaves the session, its backoff state included, as it was.
\<close>

theorem unknown_strategy_raises:
  assumes "backoff_params s = BACKOFF_PARAMS"
    and "strategy \<notin> {''tcp'', ''http'', ''http_420''}"
  shows "backoff strategy s = (Inl (ValueError (''unknown strategy: '' @ strategy)), s)"
  using assms by (simp add: backoff_def map_of_BACKOFF_None)

theorem unknown_strategy_raises_witness:
  "backoff ''udp'' (TwitterStream_init [] 1000) = (Inl (ValueError ''unknown strategy: udp''), TwitterStream_init [] 1000)"
  using unknown_strategy_raises [of "TwitterStream_init [] 1000" "''udp''"]
  by (simp add: TwitterStream_init_def)

subsection \<open>First calls and category switches\<close>

text \<open>
  Claim C4. When the session is not backing off (as after \<^verbatim>\<open>_reset_backoff\<close>) or is backing
  off under another category, a call of \<^verbatim>\<open>_backoff\<close> stores and sleeps exactly the
  category's initial time and returns, whatever was stored before and whatever the
  category's maximum is: the ceiling is not consulted. The same call made right after a
  reset behaves in this way from any state. The initial times of the default table are
  not negative, so the theorem applies to each of its categories.
\<close>

theorem first_call_returns_initial_delay:
  assumes "map_of (backoff_params s) strategy = Some p" and "0 \<le> time p"
  shows "(backoff_sleep s = None \<or> backoff_strategy s \<noteq> Some strategy \<longrightarrow>
           backoff strategy s =
             (Inr (), s\<lparr>backoff_sleep := Some (time p), backoff_strategy := Some strategy,
                        effects := effects s @ [Sleep (time p)]\<rparr>))
       \<and> backoff strategy (reset_backoff s) =
             (Inr (), s\<lparr>backoff_sleep := Some (time p), backoff_strategy := Some strategy,
                        effects := effects s @ [Sleep (time p)]\<rparr>)
       \<and> list_all (\<lambda>(c, q). 0 \<le> time q) BACKOFF_PARAMS"
  using assms
  by (auto simp: backoff_def restart_ok reset_backoff_def BACKOFF_PARAMS_def split: option.splits)

theorem first_call_returns_initial_delay_witness:
  "backoff ''tcp''
     ((TwitterStream_init [] 1000)\<lparr>backoff_sleep := Some 320, backoff_strategy := Some ''http''\<rparr>)
   = (Inr (),
      (TwitterStream_init [] 1000)
        \<lparr>backoff_sleep := Some 0, backoff_strategy := Some ''tcp'',
         effects := effects (TwitterStream_init [] 1000) @ [Sleep 0]\<rparr>)
   \<and> backoff ''http''
       (reset_backoff
          ((TwitterStream_init [] 1000)\<lparr>backoff_sleep := Some 320, backoff_strategy := Some ''http''\<rparr>))
     = (Inr (),
        (TwitterStream_init [] 1000)
          \<lparr>backoff_sleep := Some 5, backoff_strategy := Some ''http'',
           effects := effects (TwitterStream_init [] 1000) @ [Sleep 5]\<rparr>)"
proof -
  let ?s = "(TwitterStream_init [] 1000)\<lparr>backoff_sleep := Some 320, backoff_strategy := Some ''http''\<rparr>"
  let ?tcp = "\<lparr>time = 0, kind = ''linear'', step = Some (1/4), factor = None, max_time = 16\<rparr>"
  let ?http = "\<lparr>time = 5, kind = ''exponential'', step = None, factor = Some 2, max_time = 320\<rparr>"
  have t1: "map_of (backoff_params ?s) ''tcp'' = Some ?tcp"
    by (simp add: TwitterStream_init_def BACKOFF_PARAMS_def)
  have t2: "(0::rat) \<le> time ?tcp" by simp
  have h1: "map_of (backoff_params ?s) ''http'' = Some ?http"
    by (simp add: TwitterStream_init_def BACKOFF_PARAMS_def)
  have h2: "(0::rat) \<le> time ?http" by simp
  show ?thesis
    using first_call_returns_initial_delay [OF t1 t2] first_call_returns_initial_delay [OF h1 h2]
    by simp
qed

subsection \<open>The invariant of the backoff state\<close>

lemma backoff_returns:
  assumes "backoff_params s = BACKOFF_PARAMS" and "backoff c s = (Inr u, s')"
  shows "backoff_params s' = BACKOFF_PARAMS \<and> backoff_strategy s' = Some c \<and> backoff_sleep s' \<noteq> None"
  using assms
  by (auto simp: backoff_def restart_def continue_def time_sleep_def emit_def grow_BACKOFF
      split: option.splits if_splits)

lemma backoff_raises:
  assumes "backoff_params s = BACKOFF_PARAMS" and "backoff c s = (Inl e, s')"
  shows "backoff_params s' = BACKOFF_PARAMS \<and> backoff_strategy s' = backoff_strategy s
       \<and> (backoff_sleep s' = None \<longleftrightarrow> backoff_sleep s = None)"
  using assms
  by (auto dest!: map_of_BACKOFF simp: backoff_def restart_def continue_def time_sleep_def emit_def grow_def
      split: option.splits if_splits)

lemma reach_inv:
  "reach s l \<Longrightarrow> backoff_params s = BACKOFF_PARAMS
     \<and> (backoff_sleep s = None \<longleftrightarrow> backoff_strategy s = None) \<and> backoff_strategy s = l"
proof (induction rule: reach.induct)
  case (reach_init hs w)
  show ?case by (simp add: TwitterStream_init_def)
next
  case (reach_reset s l)
  then show ?case by (simp add: reset_backoff_def)
next
  case (reach_return s l c u s')
  then show ?case using backoff_returns [of s c u s'] by auto
next
  case (reach_raise s l c e s')
  then show ?case using backoff_raises [of s c e s'] by auto
next
  case (reach_other s l s')
  then show ?case by simp
qed

text \<open>
  Claim C9. In every state the controller reaches from the constructor by calls of
  \<^verbatim>\<open>_backoff\<close> (returning or raising, for any category), by \<^verbatim>\<open>_reset_backoff\<close> and by
  the other methods of the session, the stored delay is \<open>None\<close> exactly when the stored
  category is \<open>None\<close>, and the stored category is the category of the last call that
  computed and stored a delay.
\<close>

theorem backoff_state_invariant:
  "reach s l \<Longrightarrow>
     (backoff_sleep s = None \<longleftrightarrow> backoff_strategy s = None) \<and> backoff_strategy s = l"
  using reach_inv by blast

theorem backoff_state_invariant_witness:
  "reach (snd (backoff ''http'' (snd (backoff ''tcp'' (TwitterStream_init [] 1000))))) (Some ''http'')
   \<and> backoff_sleep (snd (backoff ''http'' (snd (backoff ''tcp'' (TwitterStream_init [] 1000))))) = Some 5
   \<and> backoff_strategy (snd (backoff ''http'' (snd (backoff ''tcp'' (TwitterStream_init [] 1000))))) = Some ''http''"
proof -
  let ?s0 = "TwitterStream_init [] 1000"
  let ?s1 = "snd (backoff ''tcp'' ?s0)"
  let ?s2 = "snd (backoff ''http'' ?s1)"
  have b1: "backoff ''tcp'' ?s0 = (Inr (), ?s1)"
    by (simp add: backoff_def restart_def time_sleep_def emit_def TwitterStream_init_def BACKOFF_PARAMS_def)
  have b2: "backoff ''http'' ?s1 = (Inr (), ?s2)"
    by (simp add: backoff_def restart_def time_sleep_def emit_def TwitterStream_init_def BACKOFF_PARAMS_def)
  have r: "reach ?s2 (Some ''http'')"
    using reach_return [OF reach_return [OF reach_init b1] b2] .
  have "backoff_sleep ?s2 = Some 5"
    by (simp add: backoff_def restart_def time_sleep_def emit_def TwitterStream_init_def BACKOFF_PARAMS_def)
  with r backoff_state_invariant [OF r] show ?thesis by simp
qed

subsection \<open>Continuing under the active category\<close>

lemma tcp_step:
  assumes "tcp_state s k" and "k < 64"
  shows "\<exists>s'. backoff ''tcp'' s = (Inr (), s') \<and> tcp_state s' (Suc k)
          \<and> sleeps (effects s') = sleeps (effects s) @ [of_nat (Suc k) / 4]"
proof -
  let ?p = "\<lparr>time = 0, kind = ''linear'', step = Some (1/4), factor = None, max_time = 16\<rparr>"
  have d: "(of_nat k / 4 :: rat) < max_time ?p" "(0::rat) \<le> of_nat k / 4"
    using assms(2) by simp_all
  have e: "(of_nat k / 4 :: rat) + 1/4 = of_nat (Suc k) / 4"
    by (simp add: field_simps)
  have "backoff ''tcp'' s = continue ?p (of_nat k / 4) s"
    using assms(1) backoff_continuing [OF _ map_of_BACKOFF_tcp] by (simp add: tcp_state_def)
  also have "\<dots> = (Inr (), s\<lparr>backoff_sleep := Some (of_nat (Suc k) / 4),
               effects := effects s @
                 [Log WARNING ''Sleeping {:.2f}s as part of {} backoff.''
                    [ANum (of_nat (Suc k) / 4), AStr ''linear''],
                  Sleep (of_nat (Suc k) / 4)]\<rparr>)"
    using continue_below [OF map_of_BACKOFF_tcp d(2) d(1), of s] e by simp
  finally show ?thesis
    using assms(1) by (simp add: tcp_state_def sleeps_append)
qed

lemma tcp_steps:
  "tcp_state s k \<Longrightarrow> k + n \<le> 64 \<Longrightarrow>
     \<exists>s'. backoff_n n ''tcp'' s = (Inr (), s') \<and> tcp_state s' (k + n)
        \<and> sleeps (effects s') = sleeps (effects s) @ map (\<lambda>i. of_nat i / 4) [Suc k..<Suc (k + n)]"
proof (induction n arbitrary: s k)
  case 0
  then show ?case by simp
next
  case (Suc n)
  from Suc.prems have "k < 64" by simp
  from tcp_step [OF Suc.prems(1) this] obtain s1 where
    s1: "backoff ''tcp'' s = (Inr (), s1)" "tcp_state s1 (Suc k)"
        "sleeps (effects s1) = sleeps (effects s) @ [of_nat (Suc k) / 4]"
    by blast
  from Suc.prems have "Suc k + n \<le> 64" by simp
  from Suc.IH [OF s1(2) this] obtain s2 where
    s2: "backoff_n n ''tcp'' s1 = (Inr (), s2)" "tcp_state s2 (Suc k + n)"
        "sleeps (effects s2) = sleeps (effects s1) @ map (\<lambda>i. of_nat i / 4) [Suc (Suc k)..<Suc (Suc k + n)]"
    by blast
  have "[Suc k..<Suc (k + Suc n)] = Suc k # [Suc (Suc k)..<Suc (Suc k + n)]"
    by (simp add: upt_conv_Cons)
  with s1 s2 show ?case by simp
qed

lemma tcp_first:
  "\<exists>s'. backoff ''tcp'' (TwitterStream_init hs w) = (Inr (), s') \<and> tcp_state s' 0
     \<and> sleeps (effects s') = [0]"
  by (simp add: backoff_def restart_def time_sleep_def emit_def TwitterStream_init_def
      tcp_state_def map_of_BACKOFF_tcp)

lemma tcp_run:
  assumes "k \<le> 64"
  shows "\<exists>s'. backoff_n (Suc k) ''tcp'' (TwitterStream_init hs w) = (Inr (), s') \<and> tcp_state s' k
     \<and> sleeps (effects s') = map (\<lambda>i. of_nat i / 4) [0..<Suc k]"
proof -
  from tcp_first obtain s1 where
    s1: "backoff ''tcp'' (TwitterStream_init hs w) = (Inr (), s1)" "tcp_state s1 0"
        "sleeps (effects s1) = [0]"
    by blast
  from tcp_steps [OF s1(2), of k] assms obtain s2 where
    s2: "backoff_n k ''tcp'' s1 = (Inr (), s2)" "tcp_state s2 k"
        "sleeps (effects s2) = sleeps (effects s1) @ map (\<lambda>i. of_nat i / 4) [Suc 0..<Suc k]"
    by auto
  have "[0..<Suc k] = 0 # [Suc 0..<Suc k]"
    by (simp add: upt_conv_Cons)
  with s1 s2 show ?thesis by simp
qed

lemma backoff_n_Suc_end:
  "backoff_n n c s = (Inr (), s') \<Longrightarrow> backoff_n (Suc n) c s = backoff c s'"
proof (induction n arbitrary: s)
  case 0
  then show ?case by (auto split: prod.splits sum.splits)
next
  case (Suc n)
  from Suc.prems obtain s1 where
    s1: "backoff c s = (Inr (), s1)" "backoff_n n c s1 = (Inr (), s')"
    by (auto split: prod.splits sum.splits)
  have "backoff_n (Suc (Suc n)) c s = backoff_n (Suc n) c s1"
    using s1(1) by (simp del: backoff_n.simps add: backoff_n.simps(2) [of "Suc n"])
  also have "\<dots> = backoff c s'"
    by (rule Suc.IH [OF s1(2)])
  finally show ?case .
qed

lemma tcp_exhausted:
  "\<exists>s'. backoff_n 66 ''tcp'' (TwitterStream_init hs w) = (Inl TwitterStreamError, s')
     \<and> tcp_state s' 64 \<and> sleeps (effects s') = map (\<lambda>i. of_nat i / 4) [0..<65]"
proof -
  from tcp_run [of 64 hs w] obtain s1 where
    s1: "backoff_n 65 ''tcp'' (TwitterStream_init hs w) = (Inr (), s1)" "tcp_state s1 64"
        "sleeps (effects s1) = map (\<lambda>i. of_nat i / 4) [0..<65]"
    by auto
  let ?p = "\<lparr>time = 0, kind = ''linear'', step = Some (1/4), factor = None, max_time = 16\<rparr>"
  have "backoff ''tcp'' s1 = continue ?p (of_nat 64 / 4) s1"
    using s1(2) backoff_continuing [OF _ map_of_BACKOFF_tcp] by (simp add: tcp_state_def)
  also have "\<dots> = (Inl TwitterStreamError,
      s1\<lparr>effects := effects s1 @ [Log ERROR ''Reached maximum backoff time. Raising critical error!'' []]\<rparr>)"
    by (rule continue_ceiling) simp
  finally have "backoff ''tcp'' s1 = (Inl TwitterStreamError,
      s1\<lparr>effects := effects s1 @ [Log ERROR ''Reached maximum backoff time. Raising critical error!'' []]\<rparr>)" .
  moreover have "backoff_n 66 ''tcp'' (TwitterStream_init hs w) = backoff ''tcp'' s1"
    using backoff_n_Suc_end [of 65, OF s1(1)] by simp
  ultimately show ?thesis
    using s1 by (simp add: tcp_state_def sleeps_append)
qed

text \<open>
  Claim C1, as the specification states it, says that a continuing call grows the delay
  first and raises when the grown delay reaches the maximum, so that under \<open>tcp\<close> the
  call that would produce 16 raises. The code tests the stored delay before growing it: the
  65th consecutive call under \<open>tcp\<close> finds 15.75 stored, below the maximum 16, and returns
  after storing and sleeping 16.
\<close>

theorem ceiling_reached_counterexample:
  "backoff_sleep (snd (backoff_n 64 ''tcp'' (TwitterStream_init [] 1000))) = Some (63/4)
   \<and> map_option max_time (map_of BACKOFF_PARAMS ''tcp'') = Some 16
   \<and> fst (backoff_n 65 ''tcp'' (TwitterStream_init [] 1000)) = Inr ()
   \<and> backoff_sleep (snd (backoff_n 65 ''tcp'' (TwitterStream_init [] 1000))) = Some 16
   \<and> last (sleeps (effects (snd (backoff_n 65 ''tcp'' (TwitterStream_init [] 1000))))) = 16"
proof -
  from tcp_run [of 63 "[]" 1000] obtain s0 where
    s0: "backoff_n 64 ''tcp'' (TwitterStream_init [] 1000) = (Inr (), s0)" "tcp_state s0 63"
    by auto
  from tcp_run [of 64 "[]" 1000] obtain s1 where
    s1: "backoff_n 65 ''tcp'' (TwitterStream_init [] 1000) = (Inr (), s1)" "tcp_state s1 64"
        "sleeps (effects s1) = map (\<lambda>i. of_nat i / 4) [0..<65]"
    by auto
  have "last (map (\<lambda>i. of_nat i / 4 :: rat) [0..<65]) = 16"
    by (simp add: last_map)
  with s0 s1 show ?thesis by (simp add: tcp_state_def map_of_BACKOFF_tcp)
qed

text \<open>
  Claim C1, amended. A continuing call under the active category first tests the stored
  delay, which is never negative, against the category's maximum: when the stored delay has reached it, the call logs
  an error and raises \<open>TwitterStreamError\<close>, the backoff state unchanged; otherwise it grows
  the delay by the category's law (0.25 is added under \<open>tcp\<close>, the delay is doubled under
  \<open>http\<close> and \<open>http_420\<close>), stores it, logs a warning, sleeps the grown delay and returns,
  without comparing the grown delay with the maximum. Under \<open>tcp\<close>, from a new session,
  the successive delays are 0, 0.25, 0.5, ..., 15.75, 16, and the 66th call raises.
\<close>

theorem continuing_backoff_checks_then_grows:
  assumes "backoff_params s = BACKOFF_PARAMS" and "map_of BACKOFF_PARAMS c = Some p"
    and "backoff_sleep s = Some d" and "backoff_strategy s = Some c" and "0 \<le> d"
  shows "(max_time p \<le> d \<longrightarrow>
            backoff c s =
              (Inl TwitterStreamError,
               s\<lparr>effects := effects s @
                    [Log ERROR ''Reached maximum backoff time. Raising critical error!'' []]\<rparr>))
       \<and> (d < max_time p \<longrightarrow>
            (\<exists>d'. grow p d = Inr d' \<and> d' = (if kind p = ''linear'' then d + 1/4 else d * 2)
               \<and> backoff c s =
                   (Inr (), s\<lparr>backoff_sleep := Some d',
                              effects := effects s @
                                [Log WARNING ''Sleeping {:.2f}s as part of {} backoff.''
                                   [ANum d', AStr (kind p)],
                                 Sleep d']\<rparr>)))
       \<and> (\<forall>k\<le>64.
             fst (backoff_n (Suc k) ''tcp'' (TwitterStream_init hs w)) = Inr ()
           \<and> sleeps (effects (snd (backoff_n (Suc k) ''tcp'' (TwitterStream_init hs w))))
               = map (\<lambda>i. of_nat i / 4) [0..<Suc k])
       \<and> fst (backoff_n 66 ''tcp'' (TwitterStream_init hs w)) = Inl TwitterStreamError
       \<and> sleeps (effects (snd (backoff_n 66 ''tcp'' (TwitterStream_init hs w))))
               = map (\<lambda>i. of_nat i / 4) [0..<65]"
proof -
  have b: "backoff c s = continue p d s"
    using assms by (simp add: backoff_def)
  have k: "kind p = ''linear'' \<longleftrightarrow> c = ''tcp''"
    using map_of_BACKOFF [OF assms(2)] by auto
  have 1: "max_time p \<le> d \<longrightarrow>
            backoff c s =
              (Inl TwitterStreamError,
               s\<lparr>effects := effects s @
                    [Log ERROR ''Reached maximum backoff time. Raising critical error!'' []]\<rparr>)"
    using b continue_ceiling [of p d s] by simp
  have 2: "d < max_time p \<longrightarrow>
            (\<exists>d'. grow p d = Inr d' \<and> d' = (if kind p = ''linear'' then d + 1/4 else d * 2)
               \<and> backoff c s =
                   (Inr (), s\<lparr>backoff_sleep := Some d',
                              effects := effects s @
                                [Log WARNING ''Sleeping {:.2f}s as part of {} backoff.''
                                   [ANum d', AStr (kind p)],
                                 Sleep d']\<rparr>))"
    using b k continue_below [OF assms(2) assms(5), of s] grow_BACKOFF [OF assms(2), of d]
    by auto
  have 3: "\<forall>k\<le>64.
             fst (backoff_n (Suc k) ''tcp'' (TwitterStream_init hs w)) = Inr ()
           \<and> sleeps (effects (snd (backoff_n (Suc k) ''tcp'' (TwitterStream_init hs w))))
               = map (\<lambda>i. of_nat i / 4) [0..<Suc k]"
  proof (intro allI impI)
    fix k :: nat
    assume "k \<le> 64"
    from tcp_run [OF this, of hs w] obtain s' where
      "backoff_n (Suc k) ''tcp'' (TwitterStream_init hs w) = (Inr (), s')"
      "sleeps (effects s') = map (\<lambda>i. of_nat i / 4) [0..<Suc k]"
      by blast
    then show "fst (backoff_n (Suc k) ''tcp'' (TwitterStream_init hs w)) = Inr ()
           \<and> sleeps (effects (snd (backoff_n (Suc k) ''tcp'' (TwitterStream_init hs w))))
               = map (\<lambda>i. of_nat i / 4) [0..<Suc k]"
      by simp
  qed
  from tcp_exhausted [of hs w] obtain s' where
      "backoff_n 66 ''tcp'' (TwitterStream_init hs w) = (Inl TwitterStreamError, s')"
      "sleeps (effects s') = map (\<lambda>i. of_nat i / 4) [0..<65]"
    by blast
  then have 4: "fst (backoff_n 66 ''tcp'' (TwitterStream_init hs w)) = Inl TwitterStreamError
       \<and> sleeps (effects (snd (backoff_n 66 ''tcp'' (TwitterStream_init hs w))))
               = map (\<lambda>i. of_nat i / 4) [0..<65]"
    by simp
  from 1 2 3 4 show ?thesis by blast
qed

theorem continuing_backoff_checks_then_grows_witness:
  "backoff ''http_420''
     ((TwitterStream_init [] 1000)\<lparr>backoff_sleep := Some 480, backoff_strategy := Some ''http_420''\<rparr>)
   = (Inr (),
      (TwitterStream_init [] 1000)
        \<lparr>backoff_sleep := Some 960, backoff_strategy := Some ''http_420'',
         effects := effects (TwitterStream_init [] 1000) @
           [Log WARNING ''Sleeping {:.2f}s as part of {} backoff.'' [ANum 960, AStr ''exponential''],
            Sleep 960]\<rparr>)
   \<and> fst (backoff_n 3 ''tcp'' (TwitterStream_init [] 1000)) = Inr ()
   \<and> sleeps (effects (snd (backoff_n 3 ''tcp'' (TwitterStream_init [] 1000)))) = [0, 1/4, 1/2]"
proof -
  let ?s = "(TwitterStream_init [] 1000)\<lparr>backoff_sleep := Some 480, backoff_strategy := Some ''http_420''\<rparr>"
  let ?p = "\<lparr>time = 60, kind = ''exponential'', step = None, factor = Some 2, max_time = 600\<rparr>"
  have h1: "backoff_params ?s = BACKOFF_PARAMS" by (simp add: TwitterStream_init_def)
  have h2: "map_of BACKOFF_PARAMS ''http_420'' = Some ?p" by (simp add: BACKOFF_PARAMS_def)
  have h3: "backoff_sleep ?s = Some 480" by simp
  have h4: "backoff_strategy ?s = Some ''http_420''" by simp
  have h5: "(0::rat) \<le> 480" by simp
  have u: "[0..<Suc 2] = [0, 1, 2]" by (simp add: upt_conv_Cons)
  show ?thesis
    using continuing_backoff_checks_then_grows [OF h1 h2 h3 h4 h5, of "[]" 1000] u
    by (simp add: numeral_3_eq_3)
qed

section \<open>Properties of line processing\<close>

lemma is_status_JObj: "is_status (JObj kvs) = Inr (has_required_fields (JObj kvs))"
  by (simp add: is_status_def py_and_def has_required_fields_def split: bool.splits)

lemma has_required_fields_is_status: "has_required_fields jd \<Longrightarrow> is_status jd = Inr True"
  by (cases jd) (simp_all add: is_status_JObj, simp_all add: has_required_fields_def)

lemma forward_alive:
  "\<forall>h\<in>set hs. isinstance_QueueHandler h \<longrightarrow> alive h \<Longrightarrow>
     forward alive jd hs s = (Inr (), s\<lparr>effects := effects s @ map (\<lambda>h. ProcessOne h jd) hs\<rparr>)"
  by (induction hs arbitrary: s) (simp_all add: emit_def)

lemma forward_dead:
  "h \<in> set hs \<Longrightarrow> isinstance_QueueHandler h \<and> \<not> alive h \<Longrightarrow>
     forward alive jd hs s =
       (Inl (SystemExit ''Consumer thread dead''),
        s\<lparr>effects := effects s @
             map (\<lambda>h. ProcessOne h jd)
               (takeWhile (\<lambda>h. \<not> (isinstance_QueueHandler h \<and> \<not> alive h)) hs)\<rparr>)"
  by (induction hs arbitrary: s) (auto simp: emit_def)

lemma process_status:
  assumes "line \<noteq> []" and "json_loads ev line = Some jd" and "is_status jd = Inr True"
    and "window_size s \<noteq> 0"
  shows "process_one_line ev line s =
     (case forward (is_alive ev (counter s + 1)) jd (handlers s)
             (s\<lparr>counter := counter s + 1,
                effects := effects s @
                  (if window_size s dvd counter s + 1
                   then [Log INFO ''TwitterStreamer received %s tweets'' [AInt (counter s + 1)]]
                   else [])\<rparr>) of
        (Inl e, s3) \<Rightarrow> (Inl e, s3)
      | (Inr u, s3) \<Rightarrow> (Inr True, s3))"
  using assms
  by (simp add: process_one_line_def Let_def emit_def mod_eq_0_iff_dvd)

lemma process_valid:
  assumes "line \<noteq> []" and "json_loads ev line = Some jd" and "has_required_fields jd"
    and "window_size s \<noteq> 0"
  shows "process_one_line ev line s =
     (case forward (is_alive ev (counter s + 1)) jd (handlers s)
             (s\<lparr>counter := counter s + 1,
                effects := effects s @
                  (if window_size s dvd counter s + 1
                   then [Log INFO ''TwitterStreamer received %s tweets'' [AInt (counter s + 1)]]
                   else [])\<rparr>) of
        (Inl e, s3) \<Rightarrow> (Inl e, s3)
      | (Inr u, s3) \<Rightarrow> (Inr True, s3))"
  using assms(3) by (intro process_status assms has_required_fields_is_status)

lemma tweet_line_nonempty: "tweet_line \<noteq> []"
  by (simp add: tweet_line_def)

lemma loads_tweet: "json_loads sample_env tweet_line = Some tweet"
  by (simp add: sample_env_def sample_loads_def)

lemma tweet_fields: "has_required_fields tweet"
  by (simp add: tweet_def has_required_fields_def)


subsection \<open>Valid records\<close>

text \<open>
  Claim C7, as the specification states it, says that every line that parses and has the
  three required fields makes \<^verbatim>\<open>process_one_line\<close> return true and reach every handler.
  When the second record arrives in the sample session, the thread of the handler \<open>q\<close> is
  dead: the record is counted and handed to the first handler, then \<open>SystemExit\<close> is raised
  instead of a return value, and the handlers \<open>q\<close> and \<open>b\<close> never see the record.
\<close>

theorem dead_handler_counterexample:
  "json_loads sample_env tweet_line = Some tweet \<and> has_required_fields tweet
   \<and> process_one_line sample_env tweet_line (sample_session\<lparr>counter := 1\<rparr>) =
     (Inl (SystemExit ''Consumer thread dead''),
      sample_session\<lparr>counter := 2,
        effects := effects sample_session @
          [Log INFO ''TwitterStreamer received %s tweets'' [AInt 2],
           ProcessOne (OtherHandler ''a'') tweet]\<rparr>)"
proof -
  have w: "window_size (sample_session\<lparr>counter := 1\<rparr>) \<noteq> 0"
    by (simp add: sample_session_def TwitterStream_init_def)
  have "process_one_line sample_env tweet_line (sample_session\<lparr>counter := 1\<rparr>) =
     (Inl (SystemExit ''Consumer thread dead''),
      sample_session\<lparr>counter := 2,
        effects := effects sample_session @
          [Log INFO ''TwitterStreamer received %s tweets'' [AInt 2],
           ProcessOne (OtherHandler ''a'') tweet]\<rparr>)"
    using process_valid [OF tweet_line_nonempty loads_tweet tweet_fields w]
    by (simp add: sample_session_def TwitterStream_init_def sample_env_def emit_def)
  with loads_tweet tweet_fields show ?thesis by blast
qed

text \<open>
  Claim C7, amended. For a non-empty line that parses to a mapping with the three required
  fields, when the window size is not 0 and every \<^verbatim>\<open>QueueHandler\<close> among the handlers is
  alive when it is probed, \<^verbatim>\<open>process_one_line\<close> returns true, increments the counter by
  exactly 1, logs the progress entry exactly when the window size divides the incremented
  counter, and calls \<^verbatim>\<open>process_one\<close> of every handler once, in the order of the list.
\<close>

theorem valid_line_is_forwarded:
  assumes "line \<noteq> []" and "json_loads ev line = Some jd" and "has_required_fields jd"
    and "window_size s \<noteq> 0"
    and "\<forall>h\<in>set (handlers s). isinstance_QueueHandler h \<longrightarrow> is_alive ev (counter s + 1) h"
  shows "process_one_line ev line s =
     (Inr True,
      s\<lparr>counter := counter s + 1,
        effects := effects s @
          (if window_size s dvd counter s + 1
           then [Log INFO ''TwitterStreamer received %s tweets'' [AInt (counter s + 1)]]
           else []) @
          map (\<lambda>h. ProcessOne h jd) (handlers s)\<rparr>)"
  using assms(5)
  by (simp add: process_valid [OF assms(1-4)] forward_alive)

theorem valid_line_is_forwarded_witness:
  "process_one_line sample_env tweet_line sample_session =
     (Inr True,
      sample_session\<lparr>counter := 1,
        effects := effects sample_session @
          [Log INFO ''TwitterStreamer received %s tweets'' [AInt 1],
           ProcessOne (OtherHandler ''a'') tweet, ProcessOne (QueueHandler ''q'') tweet,
           ProcessOne (OtherHandler ''b'') tweet]\<rparr>)"
proof -
  have w: "window_size sample_session \<noteq> 0"
    by (simp add: sample_session_def TwitterStream_init_def)
  have a: "\<forall>h\<in>set (handlers sample_session).
             isinstance_QueueHandler h \<longrightarrow> is_alive sample_env (counter sample_session + 1) h"
    by (simp add: sample_session_def TwitterStream_init_def sample_env_def)
  show ?thesis
    using valid_line_is_forwarded [OF tweet_line_nonempty loads_tweet tweet_fields w a]
    by (simp add: sample_session_def TwitterStream_init_def)
qed

subsection \<open>Lines that are not records\<close>

text \<open>
  Claim C8 says that a non-empty line that parses to a value without the required fields is
  dropped: \<^verbatim>\<open>process_one_line\<close> returns false and the loop goes on. The code does so for
  a line that does not parse and for a mapping that lacks a field
  (\<open>malformed_line_is_dropped\<close>), but it applies \<^verbatim>\<open>in\<close> to whatever \<^verbatim>\<open>json.loads\<close>
  returned. The line \<^verbatim>\<open>1\<close> parses to the number 1, which has no fields; the membership
  test raises \<open>TypeError\<close>, no \<^verbatim>\<open>except\<close> clause of \<^verbatim>\<open>stream\<close> catches it, and it
  ends the session.
\<close>

theorem scalar_line_raises:
  "json_loads sample_env ''1'' = Some (JNum 1) \<and> \<not> has_required_fields (JNum 1)
   \<and> process_one_line sample_env ''1'' sample_session =
       (Inl (TypeError ''argument of type int is not iterable''), sample_session)
   \<and> fst (stream sample_env [Connected 0 [''1''] None] sample_session) =
       Some (TypeError ''argument of type int is not iterable'')"
proof -
  have l: "json_loads sample_env ''1'' = Some (JNum 1)"
    by (simp add: sample_env_def sample_loads_def tweet_line_def)
  have p: "\<And>s. process_one_line sample_env ''1'' s =
       (Inl (TypeError ''argument of type int is not iterable''), s)"
    by (simp add: process_one_line_def l is_status_def py_and_def)
  have "fst (stream sample_env [Connected 0 [''1''] None] sample_session) =
       Some (TypeError ''argument of type int is not iterable'')"
    by (simp add: stream_def stream_iteration_def try_body_def p except_clauses_def
        finally_clause_def)
  with l p show ?thesis by (simp add: has_required_fields_def)
qed

section \<open>Properties of the stream loop\<close>






lemma iter_lines_append:
  "iter_lines ev (pre @ ls) d s =
     (case iter_lines ev pre d s of
        (Inl e, s1) \<Rightarrow> (Inl e, s1)
      | (Inr n, s1) \<Rightarrow> iter_lines ev ls n s1)"
  by (induction pre arbitrary: d s) (auto split: prod.splits sum.splits)




lemma not_caught:
  "except_clauses (SystemExit m) s = (Inl (SystemExit m), s)"
  by (simp add: except_clauses_def)

lemma connected_iteration_closes:
  assumes "stream_iteration ev (Connected r ls ending) (s, resp) = (res, s', resp')"
  shows "resp' = Some r \<and> (\<exists>evs. effects s' = evs @ [Closed r])"
  using assms
  by (auto simp: stream_iteration_def try_body_def finally_clause_def emit_def
      split: prod.splits sum.splits option.splits)

subsection \<open>The health counter\<close>



subsection \<open>A dead consumer\<close>

text \<open>
  Claim C6. When a line has passed the checks of \<^verbatim>\<open>process_one_line\<close>, so that its
  record is about to be forwarded, and one of the handlers is a
  \<^verbatim>\<open>QueueHandler\<close> whose liveness probe answers false, the session ends with
  \<open>SystemExit\<close>: the record reaches only the handlers registered before the first dead
  one, the connection is closed, and neither the remaining lines \<open>post\<close> of the connection
  nor the further passes \<open>rest\<close> of the loop have any effect.
\<close>

theorem dead_consumer_stops_session:
  assumes "iter_lines ev pre 0 (emit (Opened r) s) = (Inr n, s1)"
    and "line \<noteq> []" and "json_loads ev line = Some jd" and "is_status jd = Inr True"
    and "window_size s1 \<noteq> 0"
    and "h \<in> set (handlers s1)" and "isinstance_QueueHandler h"
    and "\<not> is_alive ev (counter s1 + 1) h"
  shows "stream_loop ev (Connected r (pre @ line # post) ending # rest) (s, resp) =
     (Some (SystemExit ''Consumer thread dead''),
      s1\<lparr>counter := counter s1 + 1,
         effects := effects s1 @
           (if window_size s1 dvd counter s1 + 1
            then [Log INFO ''TwitterStreamer received %s tweets'' [AInt (counter s1 + 1)]]
            else []) @
           map (\<lambda>h. ProcessOne h jd)
             (takeWhile (\<lambda>h. \<not> (isinstance_QueueHandler h \<and> \<not> is_alive ev (counter s1 + 1) h))
                (handlers s1)) @
           [Log INFO ''Request connection closed!'' [], Closed r]\<rparr>)"
proof -
  let ?s2 = "s1\<lparr>counter := counter s1 + 1,
         effects := effects s1 @
           (if window_size s1 dvd counter s1 + 1
            then [Log INFO ''TwitterStreamer received %s tweets'' [AInt (counter s1 + 1)]]
            else [])\<rparr>"
  let ?s3 = "?s2\<lparr>effects := effects ?s2 @
           map (\<lambda>h. ProcessOne h jd)
             (takeWhile (\<lambda>h. \<not> (isinstance_QueueHandler h \<and> \<not> is_alive ev (counter s1 + 1) h))
                (handlers s1))\<rparr>"
  have f: "forward (is_alive ev (counter s1 + 1)) jd (handlers s1) ?s2 =
             (Inl (SystemExit ''Consumer thread dead''), ?s3)"
    using forward_dead [OF assms(6), of "is_alive ev (counter s1 + 1)" jd ?s2] assms(7,8)
    by simp
  have p: "process_one_line ev line s1 = (Inl (SystemExit ''Consumer thread dead''), ?s3)"
    using process_status [OF assms(2-5)] f by simp
  have i: "iter_lines ev (pre @ line # post) 0 (emit (Opened r) s) =
             (Inl (SystemExit ''Consumer thread dead''), ?s3)"
    using assms(1) p by (simp add: iter_lines_append)
  have t: "try_body ev (Connected r (pre @ line # post) ending) (s, resp) =
             (Inl (SystemExit ''Consumer thread dead''), ?s3, Some r)"
    using i by (simp add: try_body_def)
  have "stream_iteration ev (Connected r (pre @ line # post) ending) (s, resp) =
          (Inl (SystemExit ''Consumer thread dead''),
           emit (Closed r) (emit (Log INFO ''Request connection closed!'' []) ?s3), Some r)"
    using t by (simp add: stream_iteration_def not_caught finally_clause_def)
  then show ?thesis
    by (simp add: emit_def)
qed

theorem dead_consumer_stops_session_witness:
  "stream_loop sample_env
     [Connected 7 [tweet_line, [], tweet_line, tweet_line] None, Connected 8 [tweet_line] None]
     (sample_session, None) =
     (Some (SystemExit ''Consumer thread dead''),
      sample_session\<lparr>counter := 2,
         effects := effects sample_session @
           [Opened 7,
            Log INFO ''TwitterStreamer received %s tweets'' [AInt 1],
            ProcessOne (OtherHandler ''a'') tweet, ProcessOne (QueueHandler ''q'') tweet,
            ProcessOne (OtherHandler ''b'') tweet,
            Log INFO ''TwitterStreamer received %s tweets'' [AInt 2],
            ProcessOne (OtherHandler ''a'') tweet,
            Log INFO ''Request connection closed!'' [], Closed 7]\<rparr>)"
proof -
  let ?s1 = "sample_session\<lparr>counter := 1,
         effects := effects sample_session @
           [Opened 7,
            Log INFO ''TwitterStreamer received %s tweets'' [AInt 1],
            ProcessOne (OtherHandler ''a'') tweet, ProcessOne (QueueHandler ''q'') tweet,
            ProcessOne (OtherHandler ''b'') tweet]\<rparr>"
  have w: "window_size (emit (Opened 7) sample_session) \<noteq> 0"
    by (simp add: sample_session_def TwitterStream_init_def emit_def)
  have "process_one_line sample_env tweet_line (emit (Opened 7) sample_session) = (Inr True, ?s1)"
    using process_valid [OF tweet_line_nonempty loads_tweet tweet_fields w]
    by (simp add: sample_session_def TwitterStream_init_def sample_env_def emit_def)
  then have a1: "iter_lines sample_env [tweet_line, []] 0 (emit (Opened 7) sample_session) = (Inr 2, ?s1)"
    by (simp add: process_one_line_def [of _ "[]"])
  have a5: "window_size ?s1 \<noteq> 0"
    by (simp add: sample_session_def TwitterStream_init_def)
  have a6: "QueueHandler ''q'' \<in> set (handlers ?s1)"
    by (simp add: sample_session_def TwitterStream_init_def)
  have a7: "isinstance_QueueHandler (QueueHandler ''q'')" by simp
  have a8: "\<not> is_alive sample_env (counter ?s1 + 1) (QueueHandler ''q'')"
    by (simp add: sample_env_def)
  show ?thesis
    using dead_consumer_stops_session [OF a1 tweet_line_nonempty loads_tweet
        has_required_fields_is_status [OF tweet_fields] a5 a6 a7 a8,
        of "[tweet_line]" None "[Connected 8 [tweet_line] None]" None]
    by (simp add: sample_session_def TwitterStream_init_def sample_env_def)
qed

subsection \<open>Classification of failures\<close>



subsection \<open>Releasing the connection\<close>

text \<open>
  Claim C2 says that the connection is closed on every exit from the connected state and
  that no transient transport fault ends the session. A pass that has connected does close
  its response (\<open>connected_iteration_closes\<close>). But the \<^verbatim>\<open>finally\<close> clause reads
  \<^verbatim>\<open>resp\<close> in every pass: when the first attempt of a session fails before
  \<^verbatim>\<open>client.post\<close> returns, with a connect timeout or a connection error, the fault is
  handled by its \<^verbatim>\<open>except\<close> clause and then \<^verbatim>\<open>resp.close()\<close> raises
  \<open>UnboundLocalError\<close>, which leaves \<^verbatim>\<open>stream()\<close>; no further attempt is made.
\<close>

theorem first_connect_failure_ends_session:
  "stream ev (ConnectFailed ConnectTimeout # rest) (TwitterStream_init hs w) =
     (Some (UnboundLocalError ''resp''),
      (TwitterStream_init hs w)
        \<lparr>effects := effects (TwitterStream_init hs w) @
           [Log INFO ''Started streaming.'' [],
            Log WARNING ''Timeout, retrying in %s..'' [ANum (1/2)], Sleep (1/2),
            Log INFO ''Request connection closed!'' []]\<rparr>)
   \<and> stream ev (ConnectFailed ConnectionError # rest) (TwitterStream_init hs w) =
     (Some (UnboundLocalError ''resp''),
      (TwitterStream_init hs w)
        \<lparr>backoff_sleep := Some 0, backoff_strategy := Some ''tcp'',
         effects := effects (TwitterStream_init hs w) @
           [Log INFO ''Started streaming.'' [],
            Log WARNING ''Reconnecting to stream endpoint...'' [], Sleep 0,
            Log INFO ''Request connection closed!'' []]\<rparr>)"
  by (simp add: stream_def stream_iteration_def try_body_def except_clauses_def
      finally_clause_def time_sleep_def emit_def backoff_def restart_def
      TwitterStream_init_def BACKOFF_PARAMS_def)

end
